theory Spec2Isabelle
  imports Main "HOL-Library.Word"
begin

unbundle bit_operations_syntax

section \<open>Values shared by the package\<close>

text \<open>
  The package \<open>webview2runtime\<close> (file \<open>webview2runtime.go\<close>) is a thin layer over
  the Windows registry, two DLL procedures, the HTTP client and process execution.
  Each of these collaborators is modelled by the outcome it hands back to the code;
  the Go functions themselves are translated statement by statement.

  Go's \<open>uintptr\<close>, \<open>uint\<close> and \<open>int\<close> are machine words. The widths used here are
  those of the 64-bit targets; the conversions \<open>int(ret)\<close> and \<open>uintptr(flags)\<close>
  keep the bits, so they are the identity on \<open>64 word\<close>, and the signed reading of an
  \<open>int\<close> is \<open>sint\<close>.
\<close>

type_synonym uintptr = "64 word"
type_synonym uint = "64 word"
type_synonym go_int = "64 word"

text \<open>
  \<open>syscall.WaitStatus\<close> on Windows is \<open>struct { ExitCode uint32 }\<close>, and
  \<open>ProcessState.Sys()\<close> returns an \<open>interface{}\<close>: the type assertion of line 114
  asks whether its dynamic type is \<open>syscall.WaitStatus\<close>.
\<close>

datatype WaitStatus = WaitStatus (ExitCode: "32 word")

datatype sys_value = SysWaitStatus WaitStatus | SysOther

text \<open>
  The values of Go's \<open>error\<close> interface that occur. A nil error is \<open>None\<close> of
  \<open>error option\<close>. \<open>Errno n\<close> is \<open>syscall.Errno(n)\<close>; \<open>EINVAL\<close> is the constant
  \<open>syscall.EINVAL\<close>; \<open>ErrClosed\<close> is the \<open>*PathError\<close> wrapping \<open>os.ErrClosed\<close>
  ("file already closed"); \<open>ExitError\<close> is \<open>*exec.ExitError\<close> with what its
  \<open>Sys()\<close> returns; \<open>OtherError\<close> stands for every other error value, named by its
  message.
\<close>

datatype error =
    EINVAL
  | Errno uintptr
  | ErrClosed
  | ErrNotExist
  | ErrUnexpectedType
  | ExitError sys_value
  | OtherError string

text \<open>A call either returns its results or panics.\<close>

datatype 'a outcome = Return 'a | Panic

text \<open>The struct \<open>Info\<close> of lines 18 to 23.\<close>

record Info =
  Location :: string
  Name :: string
  Version :: string
  SilentUninstall :: string

section \<open>Library calls the code relies on\<close>

text \<open>
  \<open>syscall.UTF16PtrFromString(s)\<close> returns \<open>(nil, EINVAL)\<close> when \<open>s\<close> contains a NUL
  byte at any position, and otherwise a pointer to the NUL-terminated UTF-16 encoding
  of \<open>s\<close>. The pointer is represented by the string it encodes.
\<close>

datatype utf16ptr = UTF16Ptr string

definition UTF16PtrFromString :: "string \<Rightarrow> error + utf16ptr" where
  "UTF16PtrFromString s = (if CHR 0x00 \<in> set s then Inl EINVAL else Inr (UTF16Ptr s))"

text \<open>
  \<open>(*LazyProc).Call\<close> returns \<open>(r1, r2 uintptr, lastErr error)\<close>. Its \<open>lastErr\<close> is
  built from \<open>GetLastError\<close> and is never nil: it is always a \<open>syscall.Errno\<close>, so the
  record holds the number. \<open>NewLazyDLL\<close> and \<open>NewProc\<close> load nothing; when the DLL
  or the procedure cannot be found, \<open>Call\<close> panics. A lazily bound procedure is
  therefore an \<open>option\<close>: \<open>None\<close> when it cannot be found.
\<close>

record call_return =
  r1 :: uintptr
  r2 :: uintptr
  lastErr :: uintptr

text \<open>
  \<open>CompareBrowserVersions\<close> of \<open>WebView2Loader.dll\<close> has the C signature
  \<open>HRESULT CompareBrowserVersions(PCWSTR version1, PCWSTR version2, int* result)\<close>.
  It receives the two encoded versions and the address the code passes for \<open>result\<close>,
  and stores its answer there as a C \<open>int\<close>, which has 32 bits on every Windows
  target; a call that rejects its arguments stores nothing. The procedure is modelled
  as a function of the two versions to the values \<open>Call\<close> returns and the \<open>int\<close>
  it stores (\<open>None\<close> when it stores nothing).
\<close>

type_synonym c_int = "32 word"

type_synonym CompareBrowserVersions_proc =
  "utf16ptr \<Rightarrow> utf16ptr \<Rightarrow> call_return \<times> c_int option"

text \<open>
  Storing a C \<open>int\<close> at the address of a Go \<open>int\<close> variable. Windows targets are
  little-endian, so the four bytes stored are the low half of the 64-bit variable; its
  high half keeps what it held.
\<close>

definition store_c_int :: "go_int \<Rightarrow> c_int \<Rightarrow> go_int" where
  "store_c_int var v = (var AND NOT (mask 32)) OR ucast v"

section \<open>IsOlderThan\<close>

text \<open>
  Lines 27 to 44. \<open>mod_proc\<close> is the procedure bound at lines 28 and 29. The
  variable \<open>result\<close> of line 38 holds 9 when its address is passed at line 39, and is
  read at lines 40 and 43 with what the call stored in it.
\<close>

definition IsOlderThan ::
  "CompareBrowserVersions_proc option \<Rightarrow> Info \<Rightarrow> string \<Rightarrow> (bool \<times> error option) outcome" where
  "IsOlderThan mod_proc i requiredVersion =
     (case UTF16PtrFromString (Version i) of
        Inl e \<Rightarrow> Return (False, Some e)
      | Inr v1 \<Rightarrow>
         (case UTF16PtrFromString requiredVersion of
            Inl e \<Rightarrow> Return (False, Some e)
          | Inr v2 \<Rightarrow>
             (case mod_proc of
                None \<Rightarrow> Panic
              | Some CompareBrowserVersions \<Rightarrow>
                 (let (ret, stored) = CompareBrowserVersions v1 v2;
                      result = (case stored of None \<Rightarrow> 9 | Some v \<Rightarrow> store_c_int 9 v);
                      err = Some (Errno (lastErr ret))
                  in if sint result < - 1 \<or> sint result > 1 then Return (False, err)
                     else Return (result = - 1, None)))))"

section \<open>GetInstalledVersion\<close>

text \<open>
  The registry, as \<open>golang.org/x/sys/windows/registry\<close> shows it. A value stored
  under a key has a type; \<open>SZ\<close> (type code 1) and \<open>EXPAND_SZ\<close> (type code 2) are the
  string types, \<open>OtherType t\<close> is a value of any other type code \<open>t\<close>. An open key is
  represented by what reading each of its named values gives: an error (the value does
  not exist or cannot be read) or the stored value. The registry itself is what
  \<open>registry.OpenKey(registry.LOCAL_MACHINE, path, registry.QUERY_VALUE)\<close> gives for
  each path: an error or the open key.
\<close>

datatype reg_value = SZ string | EXPAND_SZ string | OtherType nat

type_synonym Key = "string \<Rightarrow> error + reg_value"

type_synonym registry = "string \<Rightarrow> error + Key"

definition OpenKey :: "registry \<Rightarrow> string \<Rightarrow> error + Key" where
  "OpenKey reg path = reg path"

text \<open>
  \<open>Key.GetStringValue(name)\<close> returns \<open>(val string, valtype uint32, err error)\<close>:
  the empty string with the error when the value cannot be read, the empty string with
  \<open>ErrUnexpectedType\<close> when the value is not of a string type, the string otherwise.
\<close>

definition GetStringValue :: "Key \<Rightarrow> string \<Rightarrow> string \<times> nat \<times> error option" where
  "GetStringValue k name =
     (case k name of
        Inl e \<Rightarrow> ('''', 0, Some e)
      | Inr (SZ s) \<Rightarrow> (s, 1, None)
      | Inr (EXPAND_SZ s) \<Rightarrow> (s, 2, None)
      | Inr (OtherType t) \<Rightarrow> ('''', t, Some ErrUnexpectedType))"

text \<open>Lines 69 to 72.\<close>

definition getKeyValue :: "Key \<Rightarrow> string \<Rightarrow> string" where
  "getKeyValue k name = (case GetStringValue k name of (result, _, _) \<Rightarrow> result)"

text \<open>
  Lines 49 to 52: the local variable \<open>regkey\<close>, as a function of \<open>runtime.GOARCH\<close>.
  \<open>sep\<close> is the backslash that separates the components of a registry path.
\<close>

definition sep :: string where
  "sep = [CHR 0x5C]"

definition regkey :: "string \<Rightarrow> string" where
  "regkey GOARCH =
     (if GOARCH = ''386''
      then ''SOFTWARE'' @ sep @ ''Microsoft'' @ sep @ ''EdgeUpdate'' @ sep @ ''Clients''
             @ sep @ ''{F3017226-FE2A-4295-8BDF-00C3A9A7E4C5}''
      else ''SOFTWARE'' @ sep @ ''WOW6432Node'' @ sep @ ''Microsoft'' @ sep @ ''EdgeUpdate''
             @ sep @ ''Clients'' @ sep @ ''{F3017226-FE2A-4295-8BDF-00C3A9A7E4C5}'')"

text \<open>Lines 48 to 67. The result \<open>*Info\<close> is nil (\<open>None\<close>) or points to an \<open>Info\<close>.\<close>

definition GetInstalledVersion :: "string \<Rightarrow> registry \<Rightarrow> Info option" where
  "GetInstalledVersion GOARCH reg =
     (case OpenKey reg (regkey GOARCH) of
        Inl e \<Rightarrow> None
      | Inr k \<Rightarrow>
         Some \<lparr>Location = getKeyValue k ''location'',
               Name = getKeyValue k ''name'',
               Version = getKeyValue k ''pv'',
               SilentUninstall = getKeyValue k ''SilentUninstall''\<rparr>)"

section \<open>MessageBox, Confirm and Error\<close>

text \<open>
  \<open>MessageBoxW\<close> of \<open>user32.dll\<close>, called with the window handle, the two encoded
  strings and the flags.
\<close>

type_synonym MessageBoxW_proc =
  "uintptr \<Rightarrow> utf16ptr \<Rightarrow> utf16ptr \<Rightarrow> uintptr \<Rightarrow> call_return"

text \<open>Lines 145 to 161. \<open>user32\<close> is the procedure bound at line 154.\<close>

definition MessageBox ::
  "MessageBoxW_proc option \<Rightarrow> string \<Rightarrow> string \<Rightarrow> uint \<Rightarrow> (go_int \<times> error option) outcome" where
  "MessageBox user32 caption title flags =
     (case UTF16PtrFromString caption of
        Inl e \<Rightarrow> Return (- 1, Some e)
      | Inr captionUTF16 \<Rightarrow>
         (case UTF16PtrFromString title of
            Inl e \<Rightarrow> Return (- 1, Some e)
          | Inr titleUTF16 \<Rightarrow>
             (case user32 of
                None \<Rightarrow> Panic
              | Some MessageBoxW \<Rightarrow>
                 (let ret = r1 (MessageBoxW 0 captionUTF16 titleUTF16 flags)
                  in Return (ret, None)))))"

text \<open>Lines 125 to 132.\<close>

definition Confirm ::
  "MessageBoxW_proc option \<Rightarrow> string \<Rightarrow> string \<Rightarrow> (bool \<times> error option) outcome" where
  "Confirm user32 caption title =
     (let flags = 0x00000001
      in case MessageBox user32 caption title flags of
           Panic \<Rightarrow> Panic
         | Return (result, Some e) \<Rightarrow> Return (False, Some e)
         | Return (result, None) \<Rightarrow> Return (result = 1, None))"

text \<open>Lines 136 to 140.\<close>

definition Error :: "MessageBoxW_proc option \<Rightarrow> string \<Rightarrow> string \<Rightarrow> error option outcome" where
  "Error user32 caption title =
     (let flags = 0x00000010
      in case MessageBox user32 caption title flags of
           Panic \<Rightarrow> Panic
         | Return (_, err) \<Rightarrow> Return err)"

section \<open>InstallUsingBootstrapper\<close>

text \<open>
  What the outside world answers during one run of \<open>InstallUsingBootstrapper\<close>, one
  field for each call that leaves the process (\<open>None\<close> is a nil error):
  \<^item> \<open>create_err\<close>: \<open>os.Create(installer)\<close>, line 83;
  \<^item> \<open>get_err\<close>: \<open>http.Get(bootstrapperURL)\<close>, line 90;
  \<^item> \<open>copy_err\<close>: \<open>io.Copy(out, resp.Body)\<close>, line 97;
  \<^item> \<open>body_close_err\<close>: \<open>Body.Close()\<close>, line 95;
  \<^item> \<open>handle_close_err\<close>: closing the operating system's handle of the temp file,
    which the first \<open>Close\<close> of the open file does;
  \<^item> \<open>start_err\<close>: \<open>cmd.Start()\<close>, line 109;
  \<^item> \<open>wait_err\<close>: \<open>cmd.Wait()\<close>, line 112.
  A call that blocks is represented by what it returns once it does.
\<close>

record world =
  create_err :: "error option"
  get_err :: "error option"
  copy_err :: "error option"
  body_close_err :: "error option"
  handle_close_err :: "error option"
  start_err :: "error option"
  wait_err :: "error option"

text \<open>
  An \<open>*os.File\<close>. \<open>(*File).Close\<close> closes the handle and reports what the operating
  system answered; on a file that has been closed before it returns the
  \<open>ErrClosed\<close> error and does nothing.
\<close>

record File =
  closed :: bool

definition Close :: "world \<Rightarrow> File \<Rightarrow> error option \<times> File" where
  "Close w f = (if closed f then (Some ErrClosed, f) else (handle_close_err w, f\<lparr>closed := True\<rparr>))"

text \<open>\<open>WaitStatus.ExitStatus()\<close> is \<open>int(w.ExitCode)\<close>.\<close>

definition ExitStatus :: "WaitStatus \<Rightarrow> go_int" where
  "ExitStatus status = ucast (ExitCode status)"

text \<open>
  The variables of one activation that outlive a \<open>return\<close> statement: the named results
  \<open>result\<close> and \<open>err\<close> (the short variable declarations of lines 83 and 90 assign to
  this \<open>err\<close>, since it is declared in the function's own block), and the file \<open>out\<close>
  points to. A \<open>return a, b\<close> stores \<open>a\<close> and \<open>b\<close> in the results; the deferred
  calls run afterwards, last registered first, and the function hands back what the
  results hold then.
\<close>

record frame =
  result :: bool
  err :: "error option"
  out :: File

definition return :: "bool \<Rightarrow> error option \<Rightarrow> frame \<Rightarrow> frame" where
  "return a b fr = fr\<lparr>result := a, err := b\<rparr>"

text \<open>The deferred closure of lines 87 to 89: \<open>err = out.Close()\<close>.\<close>

definition deferred_out_Close :: "world \<Rightarrow> frame \<Rightarrow> frame" where
  "deferred_out_Close w fr = (case Close w (out fr) of (e, f) \<Rightarrow> fr\<lparr>err := e, out := f\<rparr>)"

text \<open>The deferred closure of lines 94 to 96: \<open>err = Body.Close()\<close>.\<close>

definition deferred_Body_Close :: "world \<Rightarrow> frame \<Rightarrow> frame" where
  "deferred_Body_Close w fr = fr\<lparr>err := body_close_err w\<rparr>"

text \<open>
  Lines 108 to 119, up to the \<open>return\<close> statement reached. The \<open>err\<close> of lines 109
  and 112 are variables of the two \<open>if\<close> statements and shadow the result.
\<close>

definition run_installer :: "world \<Rightarrow> frame \<Rightarrow> frame" where
  "run_installer w fr =
     (case start_err w of
        Some e \<Rightarrow> return False (Some e) fr
      | None \<Rightarrow>
         (case wait_err w of
            Some (ExitError (SysWaitStatus status)) \<Rightarrow> return (ExitStatus status = 0) None fr
          | _ \<Rightarrow> return True None fr))"

text \<open>Lines 97 to 105, followed by the rest of the body.\<close>

definition copy_and_close :: "world \<Rightarrow> frame \<Rightarrow> frame" where
  "copy_and_close w fr =
     (case copy_err w of
        Some e \<Rightarrow> return False (Some e) (fr\<lparr>err := Some e\<rparr>)
      | None \<Rightarrow>
         (case Close w (out fr) of
            (Some e, f) \<Rightarrow> return False (Some e) (fr\<lparr>err := Some e, out := f\<rparr>)
          | (None, f) \<Rightarrow> run_installer w (fr\<lparr>err := None, out := f\<rparr>)))"

text \<open>
  Lines 78 to 120. When \<open>os.Create\<close> fails no call has been deferred. Otherwise the
  closure of line 87 is deferred; the closure of line 94 is deferred too once
  \<open>http.Get\<close> has succeeded, and runs first.
\<close>

definition InstallUsingBootstrapper :: "world \<Rightarrow> bool \<times> error option" where
  "InstallUsingBootstrapper w =
     (case create_err w of
        Some e \<Rightarrow> (False, Some e)
      | None \<Rightarrow>
         (let fr0 = \<lparr>result = False, err = None, out = \<lparr>closed = False\<rparr>\<rparr>;
              fr1 = (case get_err w of
                       Some e \<Rightarrow> return False (Some e) (fr0\<lparr>err := Some e\<rparr>)
                     | None \<Rightarrow> deferred_Body_Close w (copy_and_close w fr0));
              fr2 = deferred_out_Close w fr1
          in (result fr2, err fr2)))"

text \<open>
  \<open>(*Cmd).Wait\<close> for a process that was started and has exited, with nothing else
  going wrong: nil when the exit code is 0, otherwise an \<open>*exec.ExitError\<close> whose
  \<open>Sys()\<close> is the \<open>syscall.WaitStatus\<close> holding the code.
\<close>

definition Wait_exited :: "32 word \<Rightarrow> error option" where
  "Wait_exited code =
     (if code = 0 then None else Some (ExitError (SysWaitStatus (WaitStatus code))))"

text \<open>
  The run in which the file is created, downloaded and closed without an error, and the
  installer starts and exits with the given code.
\<close>

definition installer_exits :: "32 word \<Rightarrow> world" where
  "installer_exits code =
     \<lparr>create_err = None, get_err = None, copy_err = None, body_close_err = None,
      handle_close_err = None, start_err = None, wait_err = Wait_exited code\<rparr>"

text \<open>The same run, except that the installer cannot be started.\<close>

definition installer_not_started :: "error \<Rightarrow> world" where
  "installer_not_started e =
     \<lparr>create_err = None, get_err = None, copy_err = None, body_close_err = None,
      handle_close_err = None, start_err = Some e, wait_err = None\<rparr>"

section \<open>Helper facts\<close>

lemma nine_high_half: "(9 :: go_int) AND NOT (mask 32) = 0"
  by code_simp

lemma store_c_int_9: "store_c_int 9 v = ucast v"
  by (simp add: store_c_int_def nine_high_half)

lemma sint_ucast_c_int: "sint (ucast (v :: c_int) :: go_int) = uint v"
proof -
  have "uint v < 2 ^ 32" using uint_lt2p [of v] by simp
  then have "uint v < 2 ^ 63" by simp
  moreover have "- (2 ^ 63) \<le> uint v"
    by (rule order_trans [OF _ uint_ge_0]) simp
  ultimately have "signed_take_bit 63 (uint v) = uint v"
    by (rule signed_take_bit_int_eq_self [rotated])
  then show ?thesis by (simp add: signed_ucast_eq)
qed

lemma ucast_c_int_not_minus_one: "(ucast (v :: c_int) :: go_int) \<noteq> - 1"
proof
  assume "(ucast v :: go_int) = - 1"
  then have "sint (ucast v :: go_int) = sint (- 1 :: go_int)" by simp
  then have "uint v = - 1" by (simp add: sint_ucast_c_int)
  moreover have "0 \<le> uint v" by (rule uint_ge_0)
  ultimately show False by simp
qed

lemma uint_c_int_minus_one: "uint (- 1 :: c_int) = 4294967295"
  by (simp add: unsigned_minus_1_eq_mask mask_eq_exp_minus_1)

text \<open>
  With a 64-bit \<open>result\<close> whose high half stays 0, the comparison of line 43 never
  holds: \<open>IsOlderThan\<close> does not return true, whatever the comparator answers.
\<close>

lemma IsOlderThan_never_true: "IsOlderThan mod_proc i requiredVersion \<noteq> Return (True, e)"
  by (auto simp: IsOlderThan_def UTF16PtrFromString_def store_c_int_9 sint_ucast_c_int
        ucast_c_int_not_minus_one Let_def
      split: sum.splits option.splits prod.splits if_splits)

lemma ExitStatus_zero_iff: "ExitStatus (WaitStatus code) = 0 \<longleftrightarrow> code = 0"
proof
  assume "ExitStatus (WaitStatus code) = 0"
  then have "(ucast (ucast code :: 64 word) :: 32 word) = 0"
    by (simp add: ExitStatus_def)
  moreover have "(ucast (ucast code :: 64 word) :: 32 word) = code"
    by (rule ucast_up_ucast_id) (simp add: is_up)
  ultimately show "code = 0" by simp
qed (simp add: ExitStatus_def)

lemmas install_defs =
  InstallUsingBootstrapper_def copy_and_close_def run_installer_def
  deferred_out_Close_def deferred_Body_Close_def return_def Close_def Let_def

lemma InstallUsingBootstrapper_installer_exits:
  "InstallUsingBootstrapper (installer_exits code) = (code = 0, Some ErrClosed)"
  by (simp add: install_defs installer_exits_def Wait_exited_def ExitStatus_zero_iff)

lemma regkey_386:
  "regkey ''386'' =
     ''SOFTWARE'' @ sep @ ''Microsoft'' @ sep @ ''EdgeUpdate'' @ sep @ ''Clients''
       @ sep @ ''{F3017226-FE2A-4295-8BDF-00C3A9A7E4C5}''"
  unfolding regkey_def by (rule if_P) (rule refl)

lemma regkey_other:
  "GOARCH \<noteq> ''386'' \<Longrightarrow>
     regkey GOARCH =
       ''SOFTWARE'' @ sep @ ''WOW6432Node'' @ sep @ ''Microsoft'' @ sep @ ''EdgeUpdate''
         @ sep @ ''Clients'' @ sep @ ''{F3017226-FE2A-4295-8BDF-00C3A9A7E4C5}''"
  unfolding regkey_def by (rule if_not_P)

lemma getKeyValue_fst: "getKeyValue k name = fst (GetStringValue k name)"
  by (simp add: getKeyValue_def split: prod.splits)

lemma GetInstalledVersion_opened:
  "OpenKey reg path = Inr k \<Longrightarrow> path = regkey GOARCH \<Longrightarrow>
   GetInstalledVersion GOARCH reg =
     Some \<lparr>Location = fst (GetStringValue k ''location''),
           Name = fst (GetStringValue k ''name''),
           Version = fst (GetStringValue k ''pv''),
           SilentUninstall = fst (GetStringValue k ''SilentUninstall'')\<rparr>"
  by (simp add: GetInstalledVersion_def getKeyValue_fst)

lemma GetInstalledVersion_not_opened:
  "OpenKey reg path = Inl e \<Longrightarrow> path = regkey GOARCH \<Longrightarrow> GetInstalledVersion GOARCH reg = None"
  by (simp add: GetInstalledVersion_def)

lemma GetStringValue_cong:
  "k name = k' name \<Longrightarrow> GetStringValue k name = GetStringValue k' name"
  by (simp add: GetStringValue_def)

lemma GetInstalledVersion_agree:
  assumes "case (OpenKey reg path, OpenKey reg' path) of
       (Inl _, Inl _) \<Rightarrow> True
     | (Inr k, Inr k') \<Rightarrow>
         (\<forall>name \<in> {''location'', ''name'', ''pv'', ''SilentUninstall''}. k name = k' name)
     | _ \<Rightarrow> False"
    and "path = regkey GOARCH"
  shows "GetInstalledVersion GOARCH reg = GetInstalledVersion GOARCH reg'"
proof (cases "OpenKey reg path")
  case (Inl e)
  with assms(1) obtain e' where "OpenKey reg' path = Inl e'"
    by (cases "OpenKey reg' path") simp_all
  with Inl assms(2) show ?thesis
    by (simp add: GetInstalledVersion_not_opened)
next
  case (Inr k)
  with assms(1) obtain k' where k': "OpenKey reg' path = Inr k'"
    by (cases "OpenKey reg' path") simp_all
  with Inr assms(1)
  have eq: "\<forall>name \<in> {''location'', ''name'', ''pv'', ''SilentUninstall''}. k name = k' name"
    by (simp only: prod.case sum.case)
  have "GetStringValue k ''location'' = GetStringValue k' ''location''"
    by (rule GetStringValue_cong, rule bspec [OF eq]) (rule insertI1)
  moreover have "GetStringValue k ''name'' = GetStringValue k' ''name''"
    by (rule GetStringValue_cong, rule bspec [OF eq]) (intro insertI1 insertI2)
  moreover have "GetStringValue k ''pv'' = GetStringValue k' ''pv''"
    by (rule GetStringValue_cong, rule bspec [OF eq]) (intro insertI1 insertI2)
  moreover have "GetStringValue k ''SilentUninstall'' = GetStringValue k' ''SilentUninstall''"
    by (rule GetStringValue_cong, rule bspec [OF eq]) (intro insertI1 insertI2)
  ultimately show ?thesis
    by (simp only: GetInstalledVersion_opened [OF Inr assms(2)]
          GetInstalledVersion_opened [OF k' assms(2)])
qed

section \<open>IsOlderThan\<close>

text \<open>
  C3. The specification has \<open>IsOlderThan\<close> return true exactly when the comparator
  yields \<open>-1\<close>, and line 43 compares \<open>result\<close> with \<open>-1\<close>. The comparator stores
  its \<open>-1\<close> in the low half of \<open>result\<close>, which then holds 4294967295, so line 40
  takes the answer for a failure: the function returns false and the error of the call.
  Evaluated for the installed version 89.0.0.1, the required version 90.0.818.66 and
  a comparator that answers \<open>-1\<close>.
\<close>

theorem IsOlderThan_older_version_not_true:
  "UTF16PtrFromString ''89.0.0.1'' = Inr (UTF16Ptr ''89.0.0.1'') \<and>
   UTF16PtrFromString ''90.0.818.66'' = Inr (UTF16Ptr ''90.0.818.66'') \<and>
   sint (- 1 :: c_int) \<in> {- 1, 0, 1} \<and>
   sint (store_c_int 9 (- 1)) = 4294967295 \<and>
   IsOlderThan (Some (\<lambda>v1 v2. (\<lparr>r1 = 0, r2 = 0, lastErr = 0\<rparr>, Some (- 1))))
     \<lparr>Location = '''', Name = '''', Version = ''89.0.0.1'', SilentUninstall = ''''\<rparr>
     ''90.0.818.66''
   = Return (False, Some (Errno 0))"
  by (simp add: IsOlderThan_def UTF16PtrFromString_def store_c_int_9 sint_ucast_c_int
        uint_c_int_minus_one)

text \<open>
  C4. The specification has \<open>IsOlderThan\<close> return a non-nil error only when a version
  string does not encode or the comparator yields a value outside \<open>{-1, 0, 1}\<close>. Both
  strings encode here and the comparator yields \<open>-1\<close>, and the function returns a
  non-nil error, for the reason given at C3.
\<close>

theorem IsOlderThan_error_for_answer_in_range:
  "UTF16PtrFromString ''1.0.0.0'' = Inr (UTF16Ptr ''1.0.0.0'') \<and>
   UTF16PtrFromString ''2.0.0.0'' = Inr (UTF16Ptr ''2.0.0.0'') \<and>
   sint (- 1 :: c_int) \<in> {- 1, 0, 1} \<and>
   (\<exists>b e. IsOlderThan (Some (\<lambda>v1 v2. (\<lparr>r1 = 0, r2 = 0, lastErr = 0\<rparr>, Some (- 1))))
       \<lparr>Location = '''', Name = '''', Version = ''1.0.0.0'', SilentUninstall = ''''\<rparr>
       ''2.0.0.0''
     = Return (b, Some e))"
  by (auto simp: IsOlderThan_def UTF16PtrFromString_def store_c_int_9 sint_ucast_c_int
        uint_c_int_minus_one)

section \<open>GetInstalledVersion\<close>

text \<open>
  C5. When the key cannot be opened \<open>GetInstalledVersion\<close> returns nil. When the key
  opens it returns an \<open>Info\<close> in which each of the four fields is the string stored
  under its name, and is the empty string when that value cannot be read or is not a
  string.
\<close>

theorem GetInstalledVersion_absent_or_populated:
  "(\<forall>e. OpenKey reg (regkey GOARCH) = Inl e \<longrightarrow> GetInstalledVersion GOARCH reg = None) \<and>
   (\<forall>k. OpenKey reg (regkey GOARCH) = Inr k \<longrightarrow>
      (\<exists>info. GetInstalledVersion GOARCH reg = Some info \<and>
         (\<forall>(field, name) \<in> set [(Location, ''location''), (Name, ''name''),
                                  (Version, ''pv''), (SilentUninstall, ''SilentUninstall'')].
            (\<forall>s. k name = Inr (SZ s) \<or> k name = Inr (EXPAND_SZ s) \<longrightarrow> field info = s) \<and>
            ((\<exists>e. k name = Inl e) \<or> (\<exists>t. k name = Inr (OtherType t)) \<longrightarrow> field info = ''''))))"
  by (auto simp: GetInstalledVersion_def getKeyValue_def GetStringValue_def)

text \<open>
  A registry without the key, and a registry whose key holds only the version.
\<close>

theorem GetInstalledVersion_absent_or_populated_witness:
  "GetInstalledVersion ''amd64'' (\<lambda>path. Inl ErrNotExist) = None \<and>
   GetInstalledVersion ''amd64''
     (\<lambda>path. if path = regkey ''amd64''
        then Inr (\<lambda>name. if name = ''pv'' then Inr (SZ ''89.0.0.1'') else Inl ErrNotExist)
        else Inl ErrNotExist)
   = Some \<lparr>Location = '''', Name = '''', Version = ''89.0.0.1'', SilentUninstall = ''''\<rparr>"
  using GetInstalledVersion_absent_or_populated
    [of "\<lambda>path. Inl ErrNotExist" "''amd64''"]
    GetInstalledVersion_absent_or_populated
    [of "\<lambda>path. if path = regkey ''amd64''
        then Inr (\<lambda>name. if name = ''pv'' then Inr (SZ ''89.0.0.1'') else Inl ErrNotExist)
        else Inl ErrNotExist" "''amd64''"]
  by (auto simp: OpenKey_def)

text \<open>
  C8. The path of the key depends on the architecture alone: for \<open>386\<close> it is the
  EdgeUpdate client key outside \<open>WOW6432Node\<close>, for every other architecture the one
  inside \<open>WOW6432Node\<close>. The result is decided by that one key and by its four values
  \<open>location\<close>, \<open>name\<close>, \<open>pv\<close> and \<open>SilentUninstall\<close>: two registries that agree
  on them give the same result, and the four fields are these four values.
\<close>

theorem GetInstalledVersion_reads_one_key:
  "regkey ''386'' =
     ''SOFTWARE'' @ sep @ ''Microsoft'' @ sep @ ''EdgeUpdate'' @ sep @ ''Clients''
       @ sep @ ''{F3017226-FE2A-4295-8BDF-00C3A9A7E4C5}'' \<and>
   (GOARCH \<noteq> ''386'' \<longrightarrow>
      regkey GOARCH =
        ''SOFTWARE'' @ sep @ ''WOW6432Node'' @ sep @ ''Microsoft'' @ sep @ ''EdgeUpdate''
          @ sep @ ''Clients'' @ sep @ ''{F3017226-FE2A-4295-8BDF-00C3A9A7E4C5}'') \<and>
   ((case (OpenKey reg (regkey GOARCH), OpenKey reg' (regkey GOARCH)) of
       (Inl _, Inl _) \<Rightarrow> True
     | (Inr k, Inr k') \<Rightarrow>
         (\<forall>name \<in> {''location'', ''name'', ''pv'', ''SilentUninstall''}. k name = k' name)
     | _ \<Rightarrow> False) \<longrightarrow>
    GetInstalledVersion GOARCH reg = GetInstalledVersion GOARCH reg') \<and>
   (\<forall>k. OpenKey reg (regkey GOARCH) = Inr k \<longrightarrow>
      GetInstalledVersion GOARCH reg =
        Some \<lparr>Location = fst (GetStringValue k ''location''),
              Name = fst (GetStringValue k ''name''),
              Version = fst (GetStringValue k ''pv''),
              SilentUninstall = fst (GetStringValue k ''SilentUninstall'')\<rparr>)"
proof (intro conjI impI allI)
  show "regkey ''386'' =
     ''SOFTWARE'' @ sep @ ''Microsoft'' @ sep @ ''EdgeUpdate'' @ sep @ ''Clients''
       @ sep @ ''{F3017226-FE2A-4295-8BDF-00C3A9A7E4C5}''"
    by (rule regkey_386)
next
  assume "GOARCH \<noteq> ''386''"
  then show "regkey GOARCH =
        ''SOFTWARE'' @ sep @ ''WOW6432Node'' @ sep @ ''Microsoft'' @ sep @ ''EdgeUpdate''
          @ sep @ ''Clients'' @ sep @ ''{F3017226-FE2A-4295-8BDF-00C3A9A7E4C5}''"
    by (rule regkey_other)
next
  assume "case (OpenKey reg (regkey GOARCH), OpenKey reg' (regkey GOARCH)) of
       (Inl _, Inl _) \<Rightarrow> True
     | (Inr k, Inr k') \<Rightarrow>
         (\<forall>name \<in> {''location'', ''name'', ''pv'', ''SilentUninstall''}. k name = k' name)
     | _ \<Rightarrow> False"
  then show "GetInstalledVersion GOARCH reg = GetInstalledVersion GOARCH reg'"
    by (rule GetInstalledVersion_agree) (rule refl)
next
  fix k
  assume "OpenKey reg (regkey GOARCH) = Inr k"
  then show "GetInstalledVersion GOARCH reg =
        Some \<lparr>Location = fst (GetStringValue k ''location''),
              Name = fst (GetStringValue k ''name''),
              Version = fst (GetStringValue k ''pv''),
              SilentUninstall = fst (GetStringValue k ''SilentUninstall'')\<rparr>"
    by (rule GetInstalledVersion_opened) (rule refl)
qed

text \<open>
  Two registries that hold the same version under the key of the 64-bit path and differ
  in a value the function does not ask for.
\<close>

theorem GetInstalledVersion_reads_one_key_witness:
  "''amd64'' \<noteq> ''386'' \<and>
   GetInstalledVersion ''amd64''
     (\<lambda>path. Inr (\<lambda>name. if name = ''pv'' then Inr (SZ ''89.0.0.1'') else Inl ErrNotExist))
   = GetInstalledVersion ''amd64''
     (\<lambda>path. Inr (\<lambda>name. if name = ''pv'' then Inr (SZ ''89.0.0.1'')
                        else if name = ''other'' then Inr (OtherType 4)
                        else Inl ErrNotExist))"
proof -
  have "GetInstalledVersion ''amd64''
     (\<lambda>path. Inr (\<lambda>name. if name = ''pv'' then Inr (SZ ''89.0.0.1'') else Inl ErrNotExist))
   = GetInstalledVersion ''amd64''
     (\<lambda>path. Inr (\<lambda>name. if name = ''pv'' then Inr (SZ ''89.0.0.1'')
                        else if name = ''other'' then Inr (OtherType 4)
                        else Inl ErrNotExist))"
    using GetInstalledVersion_reads_one_key
      [of "''amd64''"
          "\<lambda>path. Inr (\<lambda>name. if name = ''pv'' then Inr (SZ ''89.0.0.1'') else Inl ErrNotExist)"
          "\<lambda>path. Inr (\<lambda>name. if name = ''pv'' then Inr (SZ ''89.0.0.1'')
                        else if name = ''other'' then Inr (OtherType 4)
                        else Inl ErrNotExist)"]
    by (simp add: OpenKey_def)
  then show ?thesis by simp
qed

section \<open>MessageBox and Confirm\<close>

text \<open>
  C6. When \<open>MessageBox\<close>, called with the flag \<open>MB_OKCANCEL\<close>, returns a button code
  and a nil error, \<open>Confirm\<close> returns a nil error and the boolean that says whether
  the code is 1, the code of OK; so it is false for every other code.
\<close>

theorem Confirm_true_iff_OK:
  "MessageBox user32 caption title 0x00000001 = Return (code, None) \<Longrightarrow>
   Confirm user32 caption title = Return (code = 1, None)"
  by (simp add: Confirm_def)

text \<open>A dialog dismissed with Cancel, whose code is 2.\<close>

theorem Confirm_true_iff_OK_witness:
  "MessageBox (Some (\<lambda>hwnd text caption flags. \<lparr>r1 = 2, r2 = 0, lastErr = 0\<rparr>))
     ''Install the runtime?'' ''WebView2'' 0x00000001 = Return (2, None) \<and>
   Confirm (Some (\<lambda>hwnd text caption flags. \<lparr>r1 = 2, r2 = 0, lastErr = 0\<rparr>))
     ''Install the runtime?'' ''WebView2'' = Return (False, None)"
proof -
  have m: "MessageBox (Some (\<lambda>hwnd text caption flags. \<lparr>r1 = 2, r2 = 0, lastErr = 0\<rparr>))
     ''Install the runtime?'' ''WebView2'' 0x00000001 = Return (2, None)"
    by (simp add: MessageBox_def UTF16PtrFromString_def)
  show ?thesis
    using m Confirm_true_iff_OK [OF m] by simp
qed

text \<open>
  C7. \<open>MessageBox\<close> returns a non-nil error exactly when the caption or the title
  does not encode. When both encode and \<open>MessageBoxW\<close> is called, \<open>MessageBox\<close>
  returns the first value of the call as the button code, with a nil error, whatever
  the call reports.
\<close>

theorem MessageBox_error_iff:
  "((\<exists>c e. MessageBox user32 caption title flags = Return (c, Some e)) \<longleftrightarrow>
      (CHR 0x00 \<in> set caption \<or> CHR 0x00 \<in> set title))
   \<and>
   (\<forall>MessageBoxW.
      CHR 0x00 \<notin> set caption \<and> CHR 0x00 \<notin> set title \<and> user32 = Some MessageBoxW \<longrightarrow>
      MessageBox user32 caption title flags =
        Return (r1 (MessageBoxW 0 (UTF16Ptr caption) (UTF16Ptr title) flags), None))"
  by (cases user32) (auto simp: MessageBox_def UTF16PtrFromString_def Let_def)

text \<open>
  A call of \<open>MessageBoxW\<close> that fails: it returns 0 and sets the last error to 5.
\<close>

theorem MessageBox_error_iff_witness:
  "MessageBox (Some (\<lambda>hwnd text caption flags. \<lparr>r1 = 0, r2 = 0, lastErr = 5\<rparr>))
     ''Install failed'' ''WebView2'' 0x00000010 = Return (0, None)"
  using MessageBox_error_iff
    [of "Some (\<lambda>hwnd text caption flags. \<lparr>r1 = 0, r2 = 0, lastErr = 5\<rparr>)"
        "''Install failed''" "''WebView2''" "0x00000010"]
  by simp

section \<open>InstallUsingBootstrapper\<close>

text \<open>
  C1. The specification has exit code 0 give \<open>(true, nil)\<close> and any other exit code
  give \<open>(false, nil)\<close>, and lines 115 and 119 return \<open>nil\<close>. The function returns
  that boolean, but not the nil error: the closure deferred at line 87 closes the file a
  second time and stores the error of that close in \<open>err\<close>. Evaluated for the exit
  codes 0 and 1 of a run in which every other step succeeds.
\<close>

theorem InstallUsingBootstrapper_exit_code_error_not_nil:
  "InstallUsingBootstrapper (installer_exits 0) = (True, Some ErrClosed) \<and>
   InstallUsingBootstrapper (installer_exits 1) = (False, Some ErrClosed)"
  by (simp add: InstallUsingBootstrapper_installer_exits)

text \<open>
  C2. The specification has a failure to start the installer give false with the error
  of the launch, an outcome distinct from that of an installer that ran and exited with
  a non-zero code, and line 110 returns the error of \<open>cmd.Start\<close>. The function
  returns false and the error of the second close in both runs: the two outcomes are the
  same and the error of \<open>cmd.Start\<close> is lost.
\<close>

theorem InstallUsingBootstrapper_start_failure_not_distinct:
  "InstallUsingBootstrapper (installer_not_started (OtherError ''file does not exist''))
     = (False, Some ErrClosed) \<and>
   InstallUsingBootstrapper (installer_not_started (OtherError ''file does not exist''))
     = InstallUsingBootstrapper (installer_exits 1)"
  by (simp add: InstallUsingBootstrapper_installer_exits)
     (simp add: install_defs installer_not_started_def)



text \<open>
  C10. When the installer has been started and \<open>cmd.Wait\<close> returns an error that is
  not an \<open>*exec.ExitError\<close> holding a \<open>syscall.WaitStatus\<close>, the statement reached is
  \<open>return true, nil\<close>: the function returns true, and what it returns is what it
  returns when \<open>cmd.Wait\<close> gives no error at all.
\<close>

theorem InstallUsingBootstrapper_wait_error_falls_through:
  assumes "create_err w = None" and "get_err w = None" and "copy_err w = None"
    and "handle_close_err w = None" and "start_err w = None"
    and "wait_err w = Some e"
    and "\<forall>status. e \<noteq> ExitError (SysWaitStatus status)"
  shows "run_installer w fr = return True None fr \<and>
     fst (InstallUsingBootstrapper w) = True \<and>
     InstallUsingBootstrapper w = InstallUsingBootstrapper (w\<lparr>wait_err := None\<rparr>)"
  using assms
  by (auto simp: install_defs
      split: option.splits error.splits sys_value.splits prod.splits)

text \<open>A wait that fails for a reason of the operating system.\<close>

theorem InstallUsingBootstrapper_wait_error_falls_through_witness:
  "(\<forall>status. OtherError ''wait: access denied'' \<noteq> ExitError (SysWaitStatus status)) \<and>
   fst (InstallUsingBootstrapper
     \<lparr>create_err = None, get_err = None, copy_err = None, body_close_err = None,
      handle_close_err = None, start_err = None,
      wait_err = Some (OtherError ''wait: access denied'')\<rparr>) = True"
proof -
  have "fst (InstallUsingBootstrapper
     \<lparr>create_err = None, get_err = None, copy_err = None, body_close_err = None,
      handle_close_err = None, start_err = None,
      wait_err = Some (OtherError ''wait: access denied'')\<rparr>) = True"
    by (rule InstallUsingBootstrapper_wait_error_falls_through
      [of "\<lparr>create_err = None, get_err = None, copy_err = None, body_close_err = None,
        handle_close_err = None, start_err = None,
        wait_err = Some (OtherError ''wait: access denied'')\<rparr>"
        "OtherError ''wait: access denied''"
        "\<lparr>result = False, err = None, out = \<lparr>closed = True\<rparr>\<rparr>",
       THEN conjunct2, THEN conjunct1]) simp_all
  then show ?thesis by simp
qed

end
